theory Spec2Isabelle
  imports Main "HOL-Library.Word"
begin

section \<open>The OAuth manager of horizon (pkg/oauth/manager/manager.go)\<close>

text \<open>
  A shallow embedding of the authorization-code engine. Go strings are byte strings
  (\<open>string\<close>, \<open>length\<close> counts bytes as \<open>len\<close> does). A \<open>time.Time\<close> is an instant
  counted in nanoseconds and a \<open>time.Duration\<close> a number of nanoseconds, both \<open>int\<close>:
  \<open>t.Add(d)\<close> is \<open>t + d\<close> and \<open>t.Before(u)\<close> is \<open>t < u\<close>.
\<close>

subsection \<open>Errors\<close>

text \<open>
  Modelled from the spec: the sentinel errors of core/errors (\<open>ErrOAuthSecretNotValid\<close>,
  \<open>ErrOAuthReqNotValid\<close>, \<open>ErrOAuthCodeExpired\<close>) and the wrapping of pkg/errors are used
  by manager.go and declared elsewhere. \<open>ErrNotFound\<close> is the store's answer for an absent
  row and \<open>ErrStore\<close> any other failure of a store. \<open>Wrap e msg\<close> is what \<open>perror.Wrap\<close>
  and \<open>perror.Wrapf\<close> build: the error \<open>e\<close>, whose kind it keeps, with the message already
  formatted.
\<close>

datatype error =
    ErrOAuthSecretNotValid
  | ErrOAuthReqNotValid
  | ErrOAuthCodeExpired
  | ErrNotFound
  | ErrStore string
  | Wrap error string

text \<open>A call either returns or panics (a Go run-time panic unwinds the caller too).\<close>

datatype 'a outcome = Returns 'a | Panics

subsection \<open>Data model\<close>

text \<open>
  Modelled from the spec: models.Token and models.ClientSecret are declared in
  pkg/oauth/models; the fields are those manager.go reads and writes.
\<close>

record Token =
  tok_ClientID :: string
  tok_RedirectURI :: string
  tok_State :: string
  tok_Code :: string
  tok_CreatedAt :: int
  tok_ExpiresIn :: int
  tok_Scope :: string
  tok_UserOrRobotIdentity :: string

record ClientSecret =
  sec_ID :: nat
  sec_ClientID :: string
  sec_ClientSecret :: string
  sec_CreatedAt :: int

text \<open>\<open>AccessTokenGenerateRequest\<close>; \<open>'r\<close> stands for \<open>*http.Request\<close>.\<close>

record 'r AccessTokenGenerateRequest =
  req_ClientID :: string
  req_ClientSecret :: string
  req_Code :: string
  req_RedirectURL :: string
  req_State :: string
  req_Request :: 'r

text \<open>\<open>generate.CodeGenerateInfo\<close>, the argument of a code-generation strategy.\<close>

record 'r CodeGenerateInfo =
  info_Token :: Token
  info_Request :: 'r

type_synonym AppType = "8 word"

definition HorizonOAuthAPP :: AppType where
  "HorizonOAuthAPP = 1"

definition DirectOAuthAPP :: AppType where
  "DirectOAuthAPP = 2"

definition HorizonAPPClientIDPrefix :: string where
  "HorizonAPPClientIDPrefix = ''ho''"

definition BasicOauthClientLength :: nat where
  "BasicOauthClientLength = 20"

definition OauthClientSecretLength :: nat where
  "OauthClientSecretLength = 40"

subsection \<open>Secret masking\<close>

text \<open>
  The Go slice expression \<open>s[lo:hi]\<close> on a string: it panics unless
  \<open>0 \<le> lo \<le> hi \<le> len(s)\<close>, and is the bytes from index \<open>lo\<close> up to, not including, \<open>hi\<close>.
\<close>

definition slice_str :: "string \<Rightarrow> int \<Rightarrow> int \<Rightarrow> string option" where
  "slice_str s lo hi =
     (if 0 \<le> lo \<and> lo \<le> hi \<and> hi \<le> int (length s)
      then Some (take (nat (hi - lo)) (drop (nat lo) s))
      else None)"

definition CutPostNum :: int where
  "CutPostNum = 8"

definition MustPrefix :: string where
  "MustPrefix = ''*****''"

text \<open>
  The body of the loop of \<open>MuskClientSecrets\<close>, for one secret value:
  \<open>MustPrefix + originSecret[len(originSecret)-CutPostNum-1 : len(originSecret)-1]\<close>;
  \<open>None\<close> is the panic of the slice expression.
\<close>

definition musk :: "string \<Rightarrow> string option" where
  "musk originSecret =
     (case slice_str originSecret
             (int (length originSecret) - CutPostNum - 1)
             (int (length originSecret) - 1) of
        None \<Rightarrow> None
      | Some sub \<Rightarrow> Some (MustPrefix @ sub))"

text \<open>
  \<open>for i := 0; i < len(clientSecrets); i++\<close>, writing the masked value back into
  element \<open>i\<close> of the slice.
\<close>

function MuskClientSecrets_loop :: "nat \<Rightarrow> ClientSecret list \<Rightarrow> ClientSecret list outcome" where
  "MuskClientSecrets_loop i clientSecrets =
     (if i < length clientSecrets
      then (case musk (sec_ClientSecret (clientSecrets ! i)) of
              None \<Rightarrow> Panics
            | Some muskedSecret \<Rightarrow>
                MuskClientSecrets_loop (Suc i)
                  (clientSecrets[i := (clientSecrets ! i)\<lparr>sec_ClientSecret := muskedSecret\<rparr>]))
      else Returns clientSecrets)"
  by pat_completeness auto
termination
  by (relation "measure (\<lambda>(i, cs). length cs - i)") auto

definition MuskClientSecrets :: "ClientSecret list \<Rightarrow> ClientSecret list outcome" where
  "MuskClientSecrets clientSecrets = MuskClientSecrets_loop 0 clientSecrets"

subsection \<open>Stores, clock and random source\<close>

text \<open>
  The two store interfaces of pkg/oauth/store/types.go. A store is any implementation:
  each method is a function on the state \<open>'w\<close> of the world outside the engine, which it
  may change, and returns the Go \<open>error\<close> (\<open>None\<close> is \<open>nil\<close>) or the sum of the error and
  the value. \<open>CreateApp\<close> and \<open>GetApp\<close> are left out with the app record they carry.
\<close>

record 'w TokenStore =
  ts_Create :: "Token \<Rightarrow> 'w \<Rightarrow> error option \<times> 'w"
  ts_DeleteByCode :: "string \<Rightarrow> 'w \<Rightarrow> error option \<times> 'w"
  ts_DeleteByClientID :: "string \<Rightarrow> 'w \<Rightarrow> error option \<times> 'w"
  ts_Get :: "string \<Rightarrow> 'w \<Rightarrow> (error + Token) \<times> 'w"

record 'w OauthAppStore =
  os_DeleteApp :: "string \<Rightarrow> 'w \<Rightarrow> error option \<times> 'w"
  os_CreateSecret :: "ClientSecret \<Rightarrow> 'w \<Rightarrow> (error + ClientSecret) \<times> 'w"
  os_DeleteSecret :: "string \<Rightarrow> nat \<Rightarrow> 'w \<Rightarrow> error option \<times> 'w"
  os_DeleteSecretByClientID :: "string \<Rightarrow> 'w \<Rightarrow> error option \<times> 'w"
  os_ListSecret :: "string \<Rightarrow> 'w \<Rightarrow> (error + ClientSecret list) \<times> 'w"

text \<open>
  \<open>time.Now()\<close> and \<open>rand.String(n)\<close> (k8s.io/apimachinery/pkg/util/rand) read the clock
  and the random source of the world; the libraries are not part of the repository and
  are parameters here.
\<close>

record 'w runtime =
  time_Now :: "'w \<Rightarrow> int \<times> 'w"
  rand_String :: "nat \<Rightarrow> 'w \<Rightarrow> string \<times> 'w"

text \<open>The \<open>manager\<close> struct (its \<open>authorizationGenerate\<close> is used by the authorize step only).\<close>

record 'w manager =
  oauthStore :: "'w OauthAppStore"
  tokenStore :: "'w TokenStore"
  AuthorizeCodeExpireTime :: int
  AccessTokenExpireTime :: int

subsection \<open>What the engine does to the world\<close>

text \<open>
  The engine's state is the world together with the record of what the engine did to it:
  every store method it invoked, with its arguments and the error it returned, and every
  warning it logged (\<open>log.Warningf\<close>, with the code and the error it formats).
\<close>

datatype call =
    TokenStore_Create Token
  | TokenStore_DeleteByCode string
  | TokenStore_DeleteByClientID string
  | TokenStore_Get string
  | OauthAppStore_DeleteApp string
  | OauthAppStore_CreateSecret ClientSecret
  | OauthAppStore_DeleteSecret string nat
  | OauthAppStore_DeleteSecretByClientID string
  | OauthAppStore_ListSecret string

datatype event = Call call "error option" | Log_Warningf string error

type_synonym 'w state = "event list \<times> 'w"

definition invoke :: "call \<Rightarrow> ('w \<Rightarrow> error option \<times> 'w) \<Rightarrow> 'w state \<Rightarrow> error option \<times> 'w state" where
  "invoke c f s = (case f (snd s) of (err, w') \<Rightarrow> (err, (fst s @ [Call c err], w')))"

definition err_of :: "error + 'a \<Rightarrow> error option" where
  "err_of r = (case r of Inl err \<Rightarrow> Some err | Inr v \<Rightarrow> None)"

definition query :: "call \<Rightarrow> ('w \<Rightarrow> (error + 'a) \<times> 'w) \<Rightarrow> 'w state \<Rightarrow> (error + 'a) \<times> 'w state" where
  "query c f s = (case f (snd s) of (r, w') \<Rightarrow> (r, (fst s @ [Call c (err_of r)], w')))"

definition ambient :: "('w \<Rightarrow> 'a \<times> 'w) \<Rightarrow> 'w state \<Rightarrow> 'a \<times> 'w state" where
  "ambient f s = (case f (snd s) of (v, w') \<Rightarrow> (v, (fst s, w')))"

text \<open>
  Reading the record: an access token has been created when \<open>Create\<close> returned \<open>nil\<close>
  (a \<open>Create\<close> that returns an error has stored nothing); a deletion has been asked for
  when \<open>DeleteByCode\<close> or \<open>DeleteByClientID\<close> was invoked, whatever it returned; the
  reads are \<open>ListSecret\<close> and \<open>Get\<close>.
\<close>

fun token_created :: "event \<Rightarrow> bool" where
  "token_created (Call (TokenStore_Create token) None) = True"
| "token_created ev = False"

fun delete_invoked :: "event \<Rightarrow> bool" where
  "delete_invoked (Call (TokenStore_DeleteByCode code) err) = True"
| "delete_invoked (Call (TokenStore_DeleteByClientID clientID) err) = True"
| "delete_invoked ev = False"

fun store_read :: "event \<Rightarrow> bool" where
  "store_read (Call (OauthAppStore_ListSecret clientID) err) = True"
| "store_read (Call (TokenStore_Get code) err) = True"
| "store_read ev = False"

subsection \<open>App and secret lifecycle\<close>

definition GenClientID :: "'w runtime \<Rightarrow> AppType \<Rightarrow> 'w \<Rightarrow> string \<times> 'w" where
  "GenClientID rt appType w =
     (if appType = HorizonOAuthAPP
      then (case rand_String rt BasicOauthClientLength w of
              (r, w') \<Rightarrow> (HorizonAPPClientIDPrefix @ r, w'))
      else if appType = DirectOAuthAPP
      then rand_String rt BasicOauthClientLength w
      else rand_String rt BasicOauthClientLength w)"

definition DeleteOAuthApp :: "'w manager \<Rightarrow> string \<Rightarrow> 'w state \<Rightarrow> error option \<times> 'w state" where
  "DeleteOAuthApp m clientID s =
     (case invoke (TokenStore_DeleteByClientID clientID)
             (ts_DeleteByClientID (tokenStore m) clientID) s of
        (Some err, s1) \<Rightarrow> (Some err, s1)
      | (None, s1) \<Rightarrow>
          (case invoke (OauthAppStore_DeleteSecretByClientID clientID)
                  (os_DeleteSecretByClientID (oauthStore m) clientID) s1 of
             (Some err, s2) \<Rightarrow> (Some err, s2)
           | (None, s2) \<Rightarrow>
               invoke (OauthAppStore_DeleteApp clientID)
                 (os_DeleteApp (oauthStore m) clientID) s2))"

definition CreateSecret ::
  "'w runtime \<Rightarrow> 'w manager \<Rightarrow> string \<Rightarrow> 'w state \<Rightarrow> (error + ClientSecret) \<times> 'w state" where
  "CreateSecret rt m clientID s =
     (case ambient (rand_String rt OauthClientSecretLength) s of
        (r, s1) \<Rightarrow>
          (case ambient (time_Now rt) s1 of
             (now, s2) \<Rightarrow>
               (let newSecret = \<lparr>sec_ID = 0, sec_ClientID = clientID,
                                 sec_ClientSecret = r, sec_CreatedAt = now\<rparr>
                in query (OauthAppStore_CreateSecret newSecret)
                     (os_CreateSecret (oauthStore m) newSecret) s2)))"

definition ListSecret ::
  "'w manager \<Rightarrow> string \<Rightarrow> 'w state \<Rightarrow> (error + ClientSecret list) outcome \<times> 'w state" where
  "ListSecret m ClientID s =
     (case query (OauthAppStore_ListSecret ClientID)
             (os_ListSecret (oauthStore m) ClientID) s of
        (Inl err, s1) \<Rightarrow> (Returns (Inl err), s1)
      | (Inr clientSecrets, s1) \<Rightarrow>
          (case MuskClientSecrets clientSecrets of
             Panics \<Rightarrow> (Panics, s1)
           | Returns musked \<Rightarrow> (Returns (Inr musked), s1)))"

subsection \<open>Token flow\<close>

definition NewAccessToken ::
  "'w runtime \<Rightarrow> 'w manager \<Rightarrow> Token \<Rightarrow> 'r AccessTokenGenerateRequest \<Rightarrow>
   ('r CodeGenerateInfo \<Rightarrow> string) \<Rightarrow> 'w state \<Rightarrow> Token \<times> 'w state" where
  "NewAccessToken rt m authorizationCodeToken req accessCodeGenerate s =
     (case ambient (time_Now rt) s of
        (now, s1) \<Rightarrow>
          (let token = \<lparr>tok_ClientID = req_ClientID req,
                        tok_RedirectURI = req_RedirectURL req,
                        tok_State = [],
                        tok_Code = [],
                        tok_CreatedAt = now,
                        tok_ExpiresIn = AccessTokenExpireTime m,
                        tok_Scope = tok_Scope authorizationCodeToken,
                        tok_UserOrRobotIdentity = tok_UserOrRobotIdentity authorizationCodeToken\<rparr>
           in (token\<lparr>tok_Code :=
                  accessCodeGenerate \<lparr>info_Token = token, info_Request = req_Request req\<rparr>\<rparr>,
               s1)))"

definition CheckByAuthorizationCode ::
  "'w runtime \<Rightarrow> 'w manager \<Rightarrow> 'r AccessTokenGenerateRequest \<Rightarrow> Token \<Rightarrow> 'w state \<Rightarrow>
   error option \<times> 'w state" where
  "CheckByAuthorizationCode rt m req codeToken s =
     (if req_State req \<noteq> tok_State codeToken
      then (Some (Wrap ErrOAuthReqNotValid
                    (''req state = '' @ req_State req @
                     '', code state = '' @ tok_State codeToken)), s)
      else if req_RedirectURL req \<noteq> tok_RedirectURI codeToken
      then (Some (Wrap ErrOAuthReqNotValid
                    (''req redirect url = '' @ req_RedirectURL req @
                     '', code redirect url = '' @ tok_RedirectURI codeToken)), s)
      else (case ambient (time_Now rt) s of
              (now, s1) \<Rightarrow>
                if tok_CreatedAt codeToken + AuthorizeCodeExpireTime m < now
                then (Some (Wrap ErrOAuthCodeExpired []), s1)
                else (None, s1)))"

text \<open>\<open>for _, secret := range secrets\<close>: the scan runs to the end of the slice.\<close>

fun scan_secrets :: "ClientSecret list \<Rightarrow> string \<Rightarrow> bool \<Rightarrow> bool" where
  "scan_secrets [] clientSecret secretOk = secretOk"
| "scan_secrets (secret # secrets) clientSecret secretOk =
     scan_secrets secrets clientSecret
       (if sec_ClientSecret secret = clientSecret then True else secretOk)"

definition GenAccessToken ::
  "'w runtime \<Rightarrow> 'w manager \<Rightarrow> 'r AccessTokenGenerateRequest \<Rightarrow>
   ('r CodeGenerateInfo \<Rightarrow> string) \<Rightarrow> 'w state \<Rightarrow> (error + Token) \<times> 'w state" where
  "GenAccessToken rt m req accessCodeGenerate s =
     (case query (OauthAppStore_ListSecret (req_ClientID req))
             (os_ListSecret (oauthStore m) (req_ClientID req)) s of
        (Inl err, s1) \<Rightarrow> (Inl err, s1)
      | (Inr secrets, s1) \<Rightarrow>
          if \<not> scan_secrets secrets (req_ClientSecret req) False
          then (Inl (Wrap ErrOAuthSecretNotValid
                       (''clientId = '' @ req_ClientID req @
                        '', secret = '' @ req_ClientSecret req)), s1)
          else
            (case query (TokenStore_Get (req_Code req))
                    (ts_Get (tokenStore m) (req_Code req)) s1 of
               (Inl err, s2) \<Rightarrow> (Inl err, s2)
             | (Inr authorizationCodeToken, s2) \<Rightarrow>
                 (case CheckByAuthorizationCode rt m req authorizationCodeToken s2 of
                    (Some err, s3) \<Rightarrow> (Inl err, s3)
                  | (None, s3) \<Rightarrow>
                      (case NewAccessToken rt m authorizationCodeToken req
                              accessCodeGenerate s3 of
                         (accessToken, s4) \<Rightarrow>
                           (case invoke (TokenStore_Create accessToken)
                                   (ts_Create (tokenStore m) accessToken) s4 of
                              (Some err, s5) \<Rightarrow> (Inl err, s5)
                            | (None, s5) \<Rightarrow>
                                (case invoke (TokenStore_DeleteByCode (req_Code req))
                                        (ts_DeleteByCode (tokenStore m) (req_Code req)) s5 of
                                   (Some err, s6) \<Rightarrow>
                                     (Inr accessToken,
                                      (fst s6 @ [Log_Warningf (req_Code req) err], snd s6))
                                 | (None, s6) \<Rightarrow> (Inr accessToken, s6)))))))"

subsection \<open>Fixtures: scripted stores and a fixed clock\<close>

text \<open>
  Stores that answer every call with a scripted result, over a world that counts the
  store calls made so far; with them the engine runs on concrete inputs.
\<close>

definition stub_tokenStore :: "(error + Token) \<Rightarrow> error option \<Rightarrow> error option \<Rightarrow> nat TokenStore" where
  "stub_tokenStore got created deleted =
     \<lparr>ts_Create = (\<lambda>token w. (created, w + 1)),
      ts_DeleteByCode = (\<lambda>code w. (deleted, w + 1)),
      ts_DeleteByClientID = (\<lambda>clientID w. (deleted, w + 1)),
      ts_Get = (\<lambda>code w. (got, w + 1))\<rparr>"

definition stub_oauthStore ::
  "(error + ClientSecret list) \<Rightarrow> error option \<Rightarrow> error option \<Rightarrow> nat OauthAppStore" where
  "stub_oauthStore listed secretsDeleted appDeleted =
     \<lparr>os_DeleteApp = (\<lambda>clientID w. (appDeleted, w + 1)),
      os_CreateSecret = (\<lambda>secret w. (Inr (secret\<lparr>sec_ID := 1\<rparr>), w + 1)),
      os_DeleteSecret = (\<lambda>clientID secretID w. (None, w + 1)),
      os_DeleteSecretByClientID = (\<lambda>clientID w. (secretsDeleted, w + 1)),
      os_ListSecret = (\<lambda>clientID w. (listed, w + 1))\<rparr>"

definition stub_runtime :: "int \<Rightarrow> nat runtime" where
  "stub_runtime now =
     \<lparr>time_Now = (\<lambda>w. (now, w)),
      rand_String = (\<lambda>n w. (replicate n (CHR ''b''), w))\<rparr>"

definition alphanumeric :: "char \<Rightarrow> bool" where
  "alphanumeric c =
     (c \<in> set ''abcdefghijklmnopqrstuvwxyzABCDEFGHIJKLMNOPQRSTUVWXYZ0123456789'')"

text \<open>The secret as a listing shows it, where the slice is in range.\<close>

definition musked :: "ClientSecret \<Rightarrow> ClientSecret" where
  "musked c = c\<lparr>sec_ClientSecret :=
       ''*****'' @ take 8 (drop (length (sec_ClientSecret c) - 9) (sec_ClientSecret c))\<rparr>"

text \<open>A client with one secret, an authorization code issued at instant 100, and a request for it.\<close>

definition demo_secret :: ClientSecret where
  "demo_secret = \<lparr>sec_ID = 1, sec_ClientID = ''ho1'', sec_ClientSecret = ''s3cret'',
                   sec_CreatedAt = 0\<rparr>"

definition demo_code :: Token where
  "demo_code = \<lparr>tok_ClientID = ''other-client'', tok_RedirectURI = ''https://a/cb'',
                 tok_State = ''xyz'', tok_Code = ''code1'', tok_CreatedAt = 100,
                 tok_ExpiresIn = 60, tok_Scope = ''read'',
                 tok_UserOrRobotIdentity = ''alice''\<rparr>"

definition demo_req :: "unit AccessTokenGenerateRequest" where
  "demo_req = \<lparr>req_ClientID = ''ho1'', req_ClientSecret = ''s3cret'', req_Code = ''code1'',
                req_RedirectURL = ''https://a/cb'', req_State = ''xyz'', req_Request = ()\<rparr>"

definition demo_manager :: "(error + Token) \<Rightarrow> error option \<Rightarrow> error option \<Rightarrow> nat manager" where
  "demo_manager got created deleted =
     \<lparr>oauthStore = stub_oauthStore (Inr [demo_secret]) None None,
      tokenStore = stub_tokenStore got created deleted,
      AuthorizeCodeExpireTime = 60,
      AccessTokenExpireTime = 3600\<rparr>"

definition demo_strategy :: "unit CodeGenerateInfo \<Rightarrow> string" where
  "demo_strategy info = ''at-'' @ tok_UserOrRobotIdentity (info_Token info)"

definition demo_access :: "int \<Rightarrow> Token" where
  "demo_access now = \<lparr>tok_ClientID = ''ho1'', tok_RedirectURI = ''https://a/cb'',
                       tok_State = [], tok_Code = ''at-alice'', tok_CreatedAt = now,
                       tok_ExpiresIn = 3600, tok_Scope = ''read'',
                       tok_UserOrRobotIdentity = ''alice''\<rparr>"

section \<open>Properties\<close>

lemmas demo_defs =
  demo_secret_def demo_code_def demo_req_def demo_manager_def demo_strategy_def
  demo_access_def stub_oauthStore_def stub_tokenStore_def stub_runtime_def

subsection \<open>Masking\<close>

lemma musk_Some_iff:
  "musk s = Some r \<longleftrightarrow> 9 \<le> length s \<and> r = ''*****'' @ take 8 (drop (length s - 9) s)"
  by (auto simp: musk_def slice_str_def CutPostNum_def MustPrefix_def nat_diff_distrib
      split: option.splits if_splits)

lemma musk_None_iff: "musk s = None \<longleftrightarrow> length s < 9"
  by (auto simp: musk_def slice_str_def CutPostNum_def split: option.splits if_splits)

lemma loop_Returns:
  "(\<And>j. i \<le> j \<Longrightarrow> j < length cs \<Longrightarrow> 9 \<le> length (sec_ClientSecret (cs ! j))) \<Longrightarrow>
   MuskClientSecrets_loop i cs = Returns (take i cs @ map musked (drop i cs))"
proof (induction i cs rule: MuskClientSecrets_loop.induct)
  case (1 i cs)
  show ?case
  proof (cases "i < length cs")
    case False
    then show ?thesis by simp
  next
    case True
    let ?c = "cs ! i"
    have "9 \<le> length (sec_ClientSecret ?c)"
      using 1(2)[of i] True by simp
    then obtain r where r: "musk (sec_ClientSecret ?c) = Some r"
      and rdef: "r = ''*****'' @ take 8 (drop (length (sec_ClientSecret ?c) - 9) (sec_ClientSecret ?c))"
      using musk_Some_iff by blast
    let ?cs' = "cs[i := ?c\<lparr>sec_ClientSecret := r\<rparr>]"
    have m: "?c\<lparr>sec_ClientSecret := r\<rparr> = musked ?c"
      by (simp add: musked_def rdef)
    have pre: "\<And>j. Suc i \<le> j \<Longrightarrow> j < length ?cs' \<Longrightarrow> 9 \<le> length (sec_ClientSecret (?cs' ! j))"
      using 1(2) by simp
    have IH: "MuskClientSecrets_loop (Suc i) ?cs' =
                Returns (take (Suc i) ?cs' @ map musked (drop (Suc i) ?cs'))"
      using 1(1)[OF True r pre] by blast
    have t: "take (Suc i) ?cs' = take i cs @ [musked ?c]"
      using True by (simp add: take_Suc_conv_app_nth m)
    have "MuskClientSecrets_loop i cs = MuskClientSecrets_loop (Suc i) ?cs'"
      using True r by (subst MuskClientSecrets_loop.simps) simp
    also have "\<dots> = Returns (take i cs @ musked ?c # map musked (drop (Suc i) cs))"
      using IH t by simp
    also have "musked ?c # map musked (drop (Suc i) cs) = map musked (drop i cs)"
      using True by (simp add: Cons_nth_drop_Suc[symmetric])
    finally show ?thesis .
  qed
qed

lemma loop_Panics:
  "i \<le> j \<Longrightarrow> j < length cs \<Longrightarrow> length (sec_ClientSecret (cs ! j)) < 9 \<Longrightarrow>
   MuskClientSecrets_loop i cs = Panics"
proof (induction i cs rule: MuskClientSecrets_loop.induct)
  case (1 i cs)
  have lt: "i < length cs" using 1(2,3) by simp
  show ?case
  proof (cases "musk (sec_ClientSecret (cs ! i))")
    case None
    then show ?thesis using lt by (subst MuskClientSecrets_loop.simps) simp
  next
    case (Some r)
    then have "i \<noteq> j" using 1(4) musk_None_iff[of "sec_ClientSecret (cs ! j)"] by auto
    then have le: "Suc i \<le> j" using 1(2) by simp
    let ?cs' = "cs[i := (cs ! i)\<lparr>sec_ClientSecret := r\<rparr>]"
    have "MuskClientSecrets_loop (Suc i) ?cs' = Panics"
      using 1(1)[OF lt Some le] 1(3,4) le by simp
    then show ?thesis using lt Some by (subst MuskClientSecrets_loop.simps) simp
  qed
qed

lemma MuskClientSecrets_Returns:
  "(\<forall>c \<in> set cs. 9 \<le> length (sec_ClientSecret c)) \<Longrightarrow>
   MuskClientSecrets cs = Returns (map musked cs)"
  using loop_Returns[of 0 cs] by (simp add: MuskClientSecrets_def)

lemma MuskClientSecrets_Panics:
  "c \<in> set cs \<Longrightarrow> length (sec_ClientSecret c) < 9 \<Longrightarrow> MuskClientSecrets cs = Panics"
  using loop_Panics[of 0 _ cs] by (auto simp: MuskClientSecrets_def in_set_conv_nth)

lemma MuskClientSecrets_total_iff:
  "(\<exists>r. MuskClientSecrets cs = Returns r) \<longleftrightarrow> (\<forall>c \<in> set cs. 9 \<le> length (sec_ClientSecret c))"
proof
  assume "\<exists>r. MuskClientSecrets cs = Returns r"
  then show "\<forall>c \<in> set cs. 9 \<le> length (sec_ClientSecret c)"
    using MuskClientSecrets_Panics[of _ cs] by (fastforce simp: not_less[symmetric])
next
  assume "\<forall>c \<in> set cs. 9 \<le> length (sec_ClientSecret c)"
  then show "\<exists>r. MuskClientSecrets cs = Returns r"
    using MuskClientSecrets_Returns by blast
qed

text \<open>
  C6. The claim speaks of a 9-character substring; the slice
  \<open>originSecret[L-9 : L-1]\<close> has 8 characters (\<open>CutPostNum = 8\<close>). As amended: for every
  secret of length \<open>L \<ge> 9\<close> the masked value is \<open>*****\<close> followed by the 8 characters
  from index \<open>L-9\<close> up to, not including, index \<open>L-1\<close>, that is the 8 characters
  immediately before the final character.
\<close>

theorem musk_shape:
  "9 \<le> length s \<Longrightarrow>
     musk s = Some (''*****'' @ take 8 (drop (length s - 9) s)) \<and>
     length (take 8 (drop (length s - 9) s)) = 8 \<and>
     take 8 (drop (length s - 9) s) @ [last s] = drop (length s - 9) s"
proof -
  assume len: "9 \<le> length s"
  have a: "musk s = Some (''*****'' @ take 8 (drop (length s - 9) s))"
    using len musk_Some_iff by blast
  have b: "length (take 8 (drop (length s - 9) s)) = 8"
    using len by simp
  have l9: "length (drop (length s - 9) s) = 9" using len by simp
  then have ne: "drop (length s - 9) s \<noteq> []" by auto
  have "butlast (drop (length s - 9) s) = take 8 (drop (length s - 9) s)"
    using l9 by (simp add: butlast_conv_take)
  moreover have "last (drop (length s - 9) s) = last s"
    using len by simp
  ultimately have c: "take 8 (drop (length s - 9) s) @ [last s] = drop (length s - 9) s"
    using append_butlast_last_id[OF ne] by simp
  show ?thesis using a b c by blast
qed

theorem musk_shape_witness:
  "9 \<le> length ''0123456789abcdefghij'' \<and>
   musk ''0123456789abcdefghij'' = Some ''*****bcdefghi'' \<and>
   ''bcdefghi'' @ ''j'' = ''bcdefghij''"
  using musk_shape[of "''0123456789abcdefghij''"] by simp

text \<open>
  The claim as stated fails on the 20-character secret of the spec's own example: the
  masked value is not \<open>*****\<close> followed by the 9 characters before the last one, nor has
  it 5 + 9 characters; and a secret of 8 characters has no masked value at all.
\<close>

theorem musk_nine_counterexample:
  "musk ''0123456789abcdefghij'' \<noteq>
     Some (''*****'' @ take 9 (drop (20 - 10) ''0123456789abcdefghij'')) \<and>
   musk ''0123456789abcdefghij'' = Some ''*****bcdefghi'' \<and>
   length ''*****bcdefghi'' \<noteq> 5 + 9 \<and>
   musk ''12345678'' = None"
  by (simp add: musk_def slice_str_def CutPostNum_def MustPrefix_def)

text \<open>
  C7. Masking the 20-character secret \<open>0123456789abcdefghij\<close> yields exactly
  \<open>*****bcdefghi\<close>: for the loop body, for \<open>MuskClientSecrets\<close> on a slice holding that
  secret, and for \<open>ListSecret\<close> over a store that lists it.
\<close>

theorem musk_example:
  "musk ''0123456789abcdefghij'' = Some ''*****bcdefghi'' \<and>
   MuskClientSecrets [c\<lparr>sec_ClientSecret := ''0123456789abcdefghij''\<rparr>] =
     Returns [c\<lparr>sec_ClientSecret := ''*****bcdefghi''\<rparr>] \<and>
   ListSecret
     (m\<lparr>oauthStore := (oauthStore m)\<lparr>os_ListSecret :=
          (\<lambda>clientID w. (Inr [c\<lparr>sec_ClientSecret := ''0123456789abcdefghij''\<rparr>], w))\<rparr>\<rparr>)
     ClientID (evs, w) =
     (Returns (Inr [c\<lparr>sec_ClientSecret := ''*****bcdefghi''\<rparr>]),
      (evs @ [Call (OauthAppStore_ListSecret ClientID) None], w))"
proof -
  have a: "musk ''0123456789abcdefghij'' = Some ''*****bcdefghi''"
    by (simp add: musk_Some_iff)
  have b: "MuskClientSecrets [c\<lparr>sec_ClientSecret := ''0123456789abcdefghij''\<rparr>] =
     Returns [c\<lparr>sec_ClientSecret := ''*****bcdefghi''\<rparr>]"
    by (simp add: MuskClientSecrets_Returns musked_def)
  show ?thesis
    using a b by (simp add: ListSecret_def query_def err_of_def)
qed

text \<open>
  C9. Masking is partial. \<open>MuskClientSecrets\<close> panics exactly when some secret of the
  slice is shorter than 9 characters, and returns exactly when all have at least 9;
  \<open>ListSecret\<close> panics exactly when the store lists such a secret. \<open>CreateSecret\<close> hands
  the store the value \<open>rand.String(40)\<close>, which has 40 characters by the contract of
  \<open>rand.String\<close> and can therefore be masked.
\<close>

theorem musk_partial:
  "(MuskClientSecrets cs = Panics \<longleftrightarrow> (\<exists>c \<in> set cs. length (sec_ClientSecret c) < 9)) \<and>
   ((\<exists>r. MuskClientSecrets cs = Returns r) \<longleftrightarrow> (\<forall>c \<in> set cs. 9 \<le> length (sec_ClientSecret c))) \<and>
   (os_ListSecret (oauthStore m) ClientID w = (Inr cs, w1) \<longrightarrow>
      (fst (ListSecret m ClientID (evs, w)) = Panics
         \<longleftrightarrow> (\<exists>c \<in> set cs. length (sec_ClientSecret c) < 9))) \<and>
   (rand_String rt 40 w = (r, w2) \<longrightarrow> length r = 40 \<longrightarrow> time_Now rt w2 = (now, w3) \<longrightarrow>
      os_CreateSecret (oauthStore m) \<lparr>sec_ID = 0, sec_ClientID = clientID,
          sec_ClientSecret = r, sec_CreatedAt = now\<rparr> w3 = (res, w4) \<longrightarrow>
      CreateSecret rt m clientID (evs, w) =
        (res, (evs @ [Call (OauthAppStore_CreateSecret \<lparr>sec_ID = 0, sec_ClientID = clientID,
                  sec_ClientSecret = r, sec_CreatedAt = now\<rparr>) (err_of res)], w4)) \<and>
      musk r \<noteq> None)"
proof -
  have tot: "(\<exists>r. MuskClientSecrets cs = Returns r) \<longleftrightarrow> (\<forall>c \<in> set cs. 9 \<le> length (sec_ClientSecret c))"
    by (rule MuskClientSecrets_total_iff)
  have pan: "MuskClientSecrets cs = Panics \<longleftrightarrow> (\<exists>c \<in> set cs. length (sec_ClientSecret c) < 9)"
  proof (cases "MuskClientSecrets cs")
    case (Returns r)
    then show ?thesis using tot by (auto simp: not_less[symmetric])
  next
    case Panics
    then show ?thesis using tot by (auto simp: not_le[symmetric])
  qed
  have lst: "os_ListSecret (oauthStore m) ClientID w = (Inr cs, w1) \<longrightarrow>
      (fst (ListSecret m ClientID (evs, w)) = Panics
         \<longleftrightarrow> (\<exists>c \<in> set cs. length (sec_ClientSecret c) < 9))"
    using pan by (auto simp: ListSecret_def query_def split: outcome.splits)
  have cre: "rand_String rt 40 w = (r, w2) \<longrightarrow> length r = 40 \<longrightarrow> time_Now rt w2 = (now, w3) \<longrightarrow>
      os_CreateSecret (oauthStore m) \<lparr>sec_ID = 0, sec_ClientID = clientID,
          sec_ClientSecret = r, sec_CreatedAt = now\<rparr> w3 = (res, w4) \<longrightarrow>
      CreateSecret rt m clientID (evs, w) =
        (res, (evs @ [Call (OauthAppStore_CreateSecret \<lparr>sec_ID = 0, sec_ClientID = clientID,
                  sec_ClientSecret = r, sec_CreatedAt = now\<rparr>) (err_of res)], w4)) \<and>
      musk r \<noteq> None"
    by (simp add: CreateSecret_def ambient_def query_def OauthClientSecretLength_def musk_None_iff)
  show ?thesis using tot pan lst cre by blast
qed

theorem musk_partial_witness:
  "MuskClientSecrets [\<lparr>sec_ID = 1, sec_ClientID = ''c'', sec_ClientSecret = ''12345678'', sec_CreatedAt = 0\<rparr>] = Panics \<and>
   (\<exists>r. MuskClientSecrets [\<lparr>sec_ID = 1, sec_ClientID = ''c'', sec_ClientSecret = ''123456789'', sec_CreatedAt = 0\<rparr>] = Returns r) \<and>
   fst (ListSecret \<lparr>oauthStore = stub_oauthStore (Inr [\<lparr>sec_ID = 1, sec_ClientID = ''c'', sec_ClientSecret = ''12345678'', sec_CreatedAt = 0\<rparr>]) None None,
                    tokenStore = stub_tokenStore (Inl ErrNotFound) None None,
                    AuthorizeCodeExpireTime = 10, AccessTokenExpireTime = 100\<rparr> ''c'' ([], 0)) = Panics \<and>
   fst (CreateSecret (stub_runtime 7)
           \<lparr>oauthStore = stub_oauthStore (Inr []) None None,
             tokenStore = stub_tokenStore (Inl ErrNotFound) None None,
             AuthorizeCodeExpireTime = 10, AccessTokenExpireTime = 100\<rparr> ''c'' ([], 0)) =
     Inr \<lparr>sec_ID = 1, sec_ClientID = ''c'', sec_ClientSecret = replicate 40 (CHR ''b''), sec_CreatedAt = 7\<rparr>"
  using musk_partial[of "[\<lparr>sec_ID = 1, sec_ClientID = ''c'', sec_ClientSecret = ''12345678'', sec_CreatedAt = 0\<rparr>]"
      "\<lparr>oauthStore = stub_oauthStore (Inr [\<lparr>sec_ID = 1, sec_ClientID = ''c'', sec_ClientSecret = ''12345678'', sec_CreatedAt = 0\<rparr>]) None None,
                    tokenStore = stub_tokenStore (Inl ErrNotFound) None None,
                    AuthorizeCodeExpireTime = 10, AccessTokenExpireTime = 100\<rparr>" "''c''" 0 1 "[]"
      "stub_runtime 7" "replicate 40 (CHR ''b'')" 0 7 0 "''c''" "Inr \<lparr>sec_ID = 1, sec_ClientID = ''c'', sec_ClientSecret = replicate 40 (CHR ''b''), sec_CreatedAt = 7\<rparr>" 1]
    musk_partial[of "[\<lparr>sec_ID = 1, sec_ClientID = ''c'', sec_ClientSecret = ''123456789'', sec_CreatedAt = 0\<rparr>]"
      "\<lparr>oauthStore = stub_oauthStore (Inr []) None None,
             tokenStore = stub_tokenStore (Inl ErrNotFound) None None,
             AuthorizeCodeExpireTime = 10, AccessTokenExpireTime = 100\<rparr>" "''c''" 0 1 "[]"
      "stub_runtime 7" "replicate 40 (CHR ''b'')" 0 7 0 "''c''" "Inr \<lparr>sec_ID = 1, sec_ClientID = ''c'', sec_ClientSecret = replicate 40 (CHR ''b''), sec_CreatedAt = 7\<rparr>" 1]
  by (simp add: stub_oauthStore_def stub_runtime_def)

subsection \<open>Client identifiers\<close>

text \<open>
  C8. Whatever \<open>rand.String(20)\<close> yields, provided it keeps its contract of 20
  alphanumeric characters: for the platform app type \<open>GenClientID\<close> returns the 22
  characters \<open>ho\<close> followed by the random string, for the direct app type the random
  string itself, 20 characters with no prefix; both are alphanumeric.
\<close>

theorem GenClientID_shape:
  "rand_String rt 20 w = (r, w') \<Longrightarrow> length r = 20 \<Longrightarrow> list_all alphanumeric r \<Longrightarrow>
     GenClientID rt HorizonOAuthAPP w = (''ho'' @ r, w') \<and>
     length (fst (GenClientID rt HorizonOAuthAPP w)) = 22 \<and>
     take 2 (fst (GenClientID rt HorizonOAuthAPP w)) = HorizonAPPClientIDPrefix \<and>
     drop 2 (fst (GenClientID rt HorizonOAuthAPP w)) = r \<and>
     list_all alphanumeric (fst (GenClientID rt HorizonOAuthAPP w)) \<and>
     GenClientID rt DirectOAuthAPP w = (r, w') \<and>
     length (fst (GenClientID rt DirectOAuthAPP w)) = 20 \<and>
     list_all alphanumeric (fst (GenClientID rt DirectOAuthAPP w))"
  by (simp add: GenClientID_def HorizonOAuthAPP_def DirectOAuthAPP_def
      BasicOauthClientLength_def HorizonAPPClientIDPrefix_def alphanumeric_def)

theorem GenClientID_shape_witness:
  "rand_String (stub_runtime 0) 20 0 = (''bbbbbbbbbbbbbbbbbbbb'', 0) \<and>
   length ''bbbbbbbbbbbbbbbbbbbb'' = 20 \<and>
   list_all alphanumeric ''bbbbbbbbbbbbbbbbbbbb'' \<and>
   GenClientID (stub_runtime 0) HorizonOAuthAPP 0 = (''hobbbbbbbbbbbbbbbbbbbb'', 0) \<and>
   GenClientID (stub_runtime 0) DirectOAuthAPP 0 = (''bbbbbbbbbbbbbbbbbbbb'', 0)"
proof -
  have r: "rand_String (stub_runtime 0) 20 0 = (''bbbbbbbbbbbbbbbbbbbb'', 0)"
    by (simp add: stub_runtime_def eval_nat_numeral)
  have l: "length ''bbbbbbbbbbbbbbbbbbbb'' = 20"
    by simp
  have a: "list_all alphanumeric ''bbbbbbbbbbbbbbbbbbbb''"
    by (simp add: alphanumeric_def)
  show ?thesis
    using GenClientID_shape[OF r l a] r l a by simp
qed

subsection \<open>The stages of the exchange\<close>

lemma scan_secrets_iff:
  "scan_secrets secrets clientSecret secretOk \<longleftrightarrow>
     secretOk \<or> clientSecret \<in> sec_ClientSecret ` set secrets"
  by (induction secrets arbitrary: secretOk) auto

lemmas engine_defs =
  GenAccessToken_def CheckByAuthorizationCode_def NewAccessToken_def
  query_def invoke_def ambient_def err_of_def

lemma NewAccessToken_log:
  "NewAccessToken rt m tok req gen ([], w) = (accessToken, ([], w')) \<Longrightarrow>
   NewAccessToken rt m tok req gen (evs, w) = (accessToken, (evs, w'))"
  by (auto simp: NewAccessToken_def ambient_def split: prod.splits)

lemma NewAccessToken_ex:
  "\<exists>accessToken w'. NewAccessToken rt m tok req gen ([], w) = (accessToken, ([], w'))"
  by (auto simp: NewAccessToken_def ambient_def split: prod.splits)

lemma Check_state_mismatch:
  "req_State req \<noteq> tok_State tok \<Longrightarrow>
   CheckByAuthorizationCode rt m req tok s =
     (Some (Wrap ErrOAuthReqNotValid
        (''req state = '' @ req_State req @ '', code state = '' @ tok_State tok)), s)"
  by (simp add: CheckByAuthorizationCode_def)

lemma Check_redirect_mismatch:
  "req_State req = tok_State tok \<Longrightarrow> req_RedirectURL req \<noteq> tok_RedirectURI tok \<Longrightarrow>
   CheckByAuthorizationCode rt m req tok s =
     (Some (Wrap ErrOAuthReqNotValid
        (''req redirect url = '' @ req_RedirectURL req @
         '', code redirect url = '' @ tok_RedirectURI tok)), s)"
  by (simp add: CheckByAuthorizationCode_def)

lemma Check_fresh:
  "req_State req = tok_State tok \<Longrightarrow> req_RedirectURL req = tok_RedirectURI tok \<Longrightarrow>
   time_Now rt w = (now, w') \<Longrightarrow>
   CheckByAuthorizationCode rt m req tok (evs, w) =
     (if tok_CreatedAt tok + AuthorizeCodeExpireTime m < now
      then Some (Wrap ErrOAuthCodeExpired []) else None, (evs, w'))"
  by (simp add: CheckByAuthorizationCode_def ambient_def)

lemma GAT_list_failed:
  "os_ListSecret (oauthStore m) (req_ClientID req) w = (Inl e, w1) \<Longrightarrow>
   GenAccessToken rt m req gen (evs, w) =
     (Inl e, (evs @ [Call (OauthAppStore_ListSecret (req_ClientID req)) (Some e)], w1))"
  by (simp add: GenAccessToken_def query_def err_of_def)

lemma GAT_secret_not_valid:
  "os_ListSecret (oauthStore m) (req_ClientID req) w = (Inr secrets, w1) \<Longrightarrow>
   req_ClientSecret req \<notin> sec_ClientSecret ` set secrets \<Longrightarrow>
   GenAccessToken rt m req gen (evs, w) =
     (Inl (Wrap ErrOAuthSecretNotValid
             (''clientId = '' @ req_ClientID req @ '', secret = '' @ req_ClientSecret req)),
      (evs @ [Call (OauthAppStore_ListSecret (req_ClientID req)) None], w1))"
  by (simp add: GenAccessToken_def query_def err_of_def scan_secrets_iff)

lemma GAT_get_failed:
  "os_ListSecret (oauthStore m) (req_ClientID req) w = (Inr secrets, w1) \<Longrightarrow>
   req_ClientSecret req \<in> sec_ClientSecret ` set secrets \<Longrightarrow>
   ts_Get (tokenStore m) (req_Code req) w1 = (Inl e, w2) \<Longrightarrow>
   GenAccessToken rt m req gen (evs, w) =
     (Inl e, (evs @ [Call (OauthAppStore_ListSecret (req_ClientID req)) None,
                     Call (TokenStore_Get (req_Code req)) (Some e)], w2))"
  by (simp add: GenAccessToken_def query_def err_of_def scan_secrets_iff)

lemma GAT_checked:
  "os_ListSecret (oauthStore m) (req_ClientID req) w = (Inr secrets, w1) \<Longrightarrow>
   req_ClientSecret req \<in> sec_ClientSecret ` set secrets \<Longrightarrow>
   ts_Get (tokenStore m) (req_Code req) w1 = (Inr tok, w2) \<Longrightarrow>
   CheckByAuthorizationCode rt m req tok
     (evs @ [Call (OauthAppStore_ListSecret (req_ClientID req)) None,
             Call (TokenStore_Get (req_Code req)) None], w2) = (Some e, s3) \<Longrightarrow>
   GenAccessToken rt m req gen (evs, w) = (Inl e, s3)"
  by (simp add: GenAccessToken_def query_def err_of_def scan_secrets_iff)

lemma GAT_minted:
  assumes L: "os_ListSecret (oauthStore m) (req_ClientID req) w = (Inr secrets, w1)"
    and S: "req_ClientSecret req \<in> sec_ClientSecret ` set secrets"
    and G: "ts_Get (tokenStore m) (req_Code req) w1 = (Inr tok, w2)"
    and C: "CheckByAuthorizationCode rt m req tok
              (evs @ [Call (OauthAppStore_ListSecret (req_ClientID req)) None,
                      Call (TokenStore_Get (req_Code req)) None], w2) =
            (None, (evs @ [Call (OauthAppStore_ListSecret (req_ClientID req)) None,
                           Call (TokenStore_Get (req_Code req)) None], w3))"
    and N: "NewAccessToken rt m tok req gen ([], w3) = (accessToken, ([], w4))"
    and Cr: "ts_Create (tokenStore m) accessToken w4 = (created, w5)"
    and D: "ts_DeleteByCode (tokenStore m) (req_Code req) w5 = (deleted, w6)"
  shows "GenAccessToken rt m req gen (evs, w) =
     (case created of
        Some e \<Rightarrow>
          (Inl e, (evs @ [Call (OauthAppStore_ListSecret (req_ClientID req)) None,
                          Call (TokenStore_Get (req_Code req)) None,
                          Call (TokenStore_Create accessToken) (Some e)], w5))
      | None \<Rightarrow>
          (Inr accessToken,
           (evs @ [Call (OauthAppStore_ListSecret (req_ClientID req)) None,
                   Call (TokenStore_Get (req_Code req)) None,
                   Call (TokenStore_Create accessToken) None,
                   Call (TokenStore_DeleteByCode (req_Code req)) deleted]
                @ (case deleted of None \<Rightarrow> [] | Some err \<Rightarrow> [Log_Warningf (req_Code req) err]),
            w6)))"
proof -
  have N': "NewAccessToken rt m tok req gen
              (evs @ [Call (OauthAppStore_ListSecret (req_ClientID req)) None,
                      Call (TokenStore_Get (req_Code req)) None], w3) =
            (accessToken, (evs @ [Call (OauthAppStore_ListSecret (req_ClientID req)) None,
                                  Call (TokenStore_Get (req_Code req)) None], w4))"
    by (rule NewAccessToken_log[OF N])
  show ?thesis
    using L S G C N' Cr D
    by (simp add: GenAccessToken_def query_def err_of_def scan_secrets_iff invoke_def
        split: option.splits)
qed

lemma Check_cases:
  assumes "CheckByAuthorizationCode rt m req tok (evs, w) = (c, s')"
  obtains
    (state) "req_State req \<noteq> tok_State tok" "s' = (evs, w)"
      "c = Some (Wrap ErrOAuthReqNotValid
             (''req state = '' @ req_State req @ '', code state = '' @ tok_State tok))"
  | (redirect) "req_State req = tok_State tok" "req_RedirectURL req \<noteq> tok_RedirectURI tok"
      "s' = (evs, w)"
      "c = Some (Wrap ErrOAuthReqNotValid
             (''req redirect url = '' @ req_RedirectURL req @
              '', code redirect url = '' @ tok_RedirectURI tok))"
  | (expired) now w' where "req_State req = tok_State tok"
      "req_RedirectURL req = tok_RedirectURI tok" "time_Now rt w = (now, w')"
      "tok_CreatedAt tok + AuthorizeCodeExpireTime m < now" "s' = (evs, w')"
      "c = Some (Wrap ErrOAuthCodeExpired [])"
  | (fresh) now w' where "req_State req = tok_State tok"
      "req_RedirectURL req = tok_RedirectURI tok" "time_Now rt w = (now, w')"
      "\<not> tok_CreatedAt tok + AuthorizeCodeExpireTime m < now" "s' = (evs, w')" "c = None"
proof (cases "req_State req = tok_State tok")
  case False
  then show ?thesis using assms state by (simp add: Check_state_mismatch)
next
  case st: True
  show ?thesis
  proof (cases "req_RedirectURL req = tok_RedirectURI tok")
    case False
    then show ?thesis using assms st redirect by (simp add: Check_redirect_mismatch)
  next
    case rd: True
    obtain now w' where T: "time_Now rt w = (now, w')"
      by (cases "time_Now rt w")
    show ?thesis
    proof (cases "tok_CreatedAt tok + AuthorizeCodeExpireTime m < now")
      case True
      then show ?thesis using assms expired[OF st rd T] Check_fresh[OF st rd T] by auto
    next
      case False
      then show ?thesis using assms fresh[OF st rd T] Check_fresh[OF st rd T] by auto
    qed
  qed
qed

lemma GenAccessToken_cases:
  obtains
    (list_failed) e w1
      where "os_ListSecret (oauthStore m) (req_ClientID req) w = (Inl e, w1)"
  | (secret_not_valid) secrets w1
      where "os_ListSecret (oauthStore m) (req_ClientID req) w = (Inr secrets, w1)"
        "req_ClientSecret req \<notin> sec_ClientSecret ` set secrets"
  | (get_failed) secrets w1 e w2
      where "os_ListSecret (oauthStore m) (req_ClientID req) w = (Inr secrets, w1)"
        "req_ClientSecret req \<in> sec_ClientSecret ` set secrets"
        "ts_Get (tokenStore m) (req_Code req) w1 = (Inl e, w2)"
  | (check_failed) secrets w1 tok w2 e s3
      where "os_ListSecret (oauthStore m) (req_ClientID req) w = (Inr secrets, w1)"
        "req_ClientSecret req \<in> sec_ClientSecret ` set secrets"
        "ts_Get (tokenStore m) (req_Code req) w1 = (Inr tok, w2)"
        "CheckByAuthorizationCode rt m req tok
           (evs @ [Call (OauthAppStore_ListSecret (req_ClientID req)) None,
                   Call (TokenStore_Get (req_Code req)) None], w2) = (Some e, s3)"
  | (minted) secrets w1 tok w2 w3 accessToken w4 created w5 deleted w6
      where "os_ListSecret (oauthStore m) (req_ClientID req) w = (Inr secrets, w1)"
        "req_ClientSecret req \<in> sec_ClientSecret ` set secrets"
        "ts_Get (tokenStore m) (req_Code req) w1 = (Inr tok, w2)"
        "CheckByAuthorizationCode rt m req tok
           (evs @ [Call (OauthAppStore_ListSecret (req_ClientID req)) None,
                   Call (TokenStore_Get (req_Code req)) None], w2) =
         (None, (evs @ [Call (OauthAppStore_ListSecret (req_ClientID req)) None,
                        Call (TokenStore_Get (req_Code req)) None], w3))"
        "NewAccessToken rt m tok req gen ([], w3) = (accessToken, ([], w4))"
        "ts_Create (tokenStore m) accessToken w4 = (created, w5)"
        "ts_DeleteByCode (tokenStore m) (req_Code req) w5 = (deleted, w6)"
proof -
  obtain r1 w1 where L: "os_ListSecret (oauthStore m) (req_ClientID req) w = (r1, w1)"
    by (cases "os_ListSecret (oauthStore m) (req_ClientID req) w")
  show thesis
  proof (cases r1)
    case (Inl e)
    then show thesis using L list_failed by simp
  next
    case (Inr secrets)
    note L' = L[unfolded Inr]
    show thesis
    proof (cases "req_ClientSecret req \<in> sec_ClientSecret ` set secrets")
      case False
      then show thesis using L' secret_not_valid by simp
    next
      case S: True
      obtain r2 w2 where G: "ts_Get (tokenStore m) (req_Code req) w1 = (r2, w2)"
        by (cases "ts_Get (tokenStore m) (req_Code req) w1")
      show thesis
      proof (cases r2)
        case (Inl e)
        then show thesis using L' S G get_failed by simp
      next
        case (Inr tok)
        note G' = G[unfolded Inr]
        let ?evs = "evs @ [Call (OauthAppStore_ListSecret (req_ClientID req)) None,
                           Call (TokenStore_Get (req_Code req)) None]"
        obtain c s3 where C: "CheckByAuthorizationCode rt m req tok (?evs, w2) = (c, s3)"
          by (cases "CheckByAuthorizationCode rt m req tok (?evs, w2)")
        show thesis
        proof (cases c)
          case (Some e)
          then show thesis using L' S G' C check_failed by simp
        next
          case None
          obtain w3 where s3: "s3 = (?evs, w3)"
            using C None by (cases rule: Check_cases) auto
          obtain accessToken w4
            where N: "NewAccessToken rt m tok req gen ([], w3) = (accessToken, ([], w4))"
            using NewAccessToken_ex[of rt m tok req gen w3] by blast
          obtain created w5 where Cr: "ts_Create (tokenStore m) accessToken w4 = (created, w5)"
            by (cases "ts_Create (tokenStore m) accessToken w4")
          obtain deleted w6
            where D: "ts_DeleteByCode (tokenStore m) (req_Code req) w5 = (deleted, w6)"
            by (cases "ts_DeleteByCode (tokenStore m) (req_Code req) w5")
          show thesis
            using minted[OF L' S G' C[unfolded None s3] N Cr D] .
        qed
      qed
    qed
  qed
qed

subsection \<open>The exchange of an authorization code\<close>

text \<open>
  C1. \<open>GenAccessToken\<close> validates in a fixed order. Once the secrets of the request's
  client are listed: (1) if none equals the request's secret it fails with
  \<open>ErrOAuthSecretNotValid\<close>, the token store not having been consulted; (2) otherwise it
  reads the code, and an error of \<open>Get\<close> (\<open>ErrNotFound\<close> for an absent code) is returned
  as it is; (3) if the state or the redirect URL differs from the stored code's it fails
  with \<open>ErrOAuthReqNotValid\<close>; (4) if the code is stale it fails with
  \<open>ErrOAuthCodeExpired\<close>. And \<open>Create\<close> is invoked only for a request that has passed all
  four checks.
\<close>

theorem GenAccessToken_checks_in_order:
  "(\<forall>secrets w1. os_ListSecret (oauthStore m) (req_ClientID req) w = (Inr secrets, w1) \<longrightarrow>
      (req_ClientSecret req \<notin> sec_ClientSecret ` set secrets \<longrightarrow>
         GenAccessToken rt m req gen (evs, w) =
           (Inl (Wrap ErrOAuthSecretNotValid
                   (''clientId = '' @ req_ClientID req @ '', secret = '' @ req_ClientSecret req)),
            (evs @ [Call (OauthAppStore_ListSecret (req_ClientID req)) None], w1))) \<and>
      (req_ClientSecret req \<in> sec_ClientSecret ` set secrets \<longrightarrow>
         (\<forall>e w2. ts_Get (tokenStore m) (req_Code req) w1 = (Inl e, w2) \<longrightarrow>
            GenAccessToken rt m req gen (evs, w) =
              (Inl e, (evs @ [Call (OauthAppStore_ListSecret (req_ClientID req)) None,
                              Call (TokenStore_Get (req_Code req)) (Some e)], w2))) \<and>
         (\<forall>tok w2. ts_Get (tokenStore m) (req_Code req) w1 = (Inr tok, w2) \<longrightarrow>
            ((req_State req \<noteq> tok_State tok \<or> req_RedirectURL req \<noteq> tok_RedirectURI tok) \<longrightarrow>
               (\<exists>msg. GenAccessToken rt m req gen (evs, w) =
                  (Inl (Wrap ErrOAuthReqNotValid msg),
                   (evs @ [Call (OauthAppStore_ListSecret (req_ClientID req)) None,
                           Call (TokenStore_Get (req_Code req)) None], w2)))) \<and>
            (req_State req = tok_State tok \<and> req_RedirectURL req = tok_RedirectURI tok \<longrightarrow>
               (\<forall>now w3. time_Now rt w2 = (now, w3) \<longrightarrow>
                  tok_CreatedAt tok + AuthorizeCodeExpireTime m < now \<longrightarrow>
                  GenAccessToken rt m req gen (evs, w) =
                    (Inl (Wrap ErrOAuthCodeExpired []),
                     (evs @ [Call (OauthAppStore_ListSecret (req_ClientID req)) None,
                             Call (TokenStore_Get (req_Code req)) None], w3))))))) \<and>
   (\<forall>t r. Call (TokenStore_Create t) r
            \<in> set (drop (length evs) (fst (snd (GenAccessToken rt m req gen (evs, w))))) \<longrightarrow>
      (\<exists>secrets w1 tok w2 now w3.
         os_ListSecret (oauthStore m) (req_ClientID req) w = (Inr secrets, w1) \<and>
         req_ClientSecret req \<in> sec_ClientSecret ` set secrets \<and>
         ts_Get (tokenStore m) (req_Code req) w1 = (Inr tok, w2) \<and>
         req_State req = tok_State tok \<and> req_RedirectURL req = tok_RedirectURI tok \<and>
         time_Now rt w2 = (now, w3) \<and>
         \<not> tok_CreatedAt tok + AuthorizeCodeExpireTime m < now))"
proof (intro conjI allI impI)
  fix secrets w1
  assume L: "os_ListSecret (oauthStore m) (req_ClientID req) w = (Inr secrets, w1)"
    and "req_ClientSecret req \<notin> sec_ClientSecret ` set secrets"
  then show "GenAccessToken rt m req gen (evs, w) =
           (Inl (Wrap ErrOAuthSecretNotValid
                   (''clientId = '' @ req_ClientID req @ '', secret = '' @ req_ClientSecret req)),
            (evs @ [Call (OauthAppStore_ListSecret (req_ClientID req)) None], w1))"
    by (rule GAT_secret_not_valid)
next
  fix secrets w1 e w2
  assume "os_ListSecret (oauthStore m) (req_ClientID req) w = (Inr secrets, w1)"
    and "req_ClientSecret req \<in> sec_ClientSecret ` set secrets"
    and "ts_Get (tokenStore m) (req_Code req) w1 = (Inl e, w2)"
  then show "GenAccessToken rt m req gen (evs, w) =
              (Inl e, (evs @ [Call (OauthAppStore_ListSecret (req_ClientID req)) None,
                              Call (TokenStore_Get (req_Code req)) (Some e)], w2))"
    by (rule GAT_get_failed)
next
  fix secrets w1 tok w2
  let ?evs = "evs @ [Call (OauthAppStore_ListSecret (req_ClientID req)) None,
                     Call (TokenStore_Get (req_Code req)) None]"
  assume L: "os_ListSecret (oauthStore m) (req_ClientID req) w = (Inr secrets, w1)"
    and S: "req_ClientSecret req \<in> sec_ClientSecret ` set secrets"
    and G: "ts_Get (tokenStore m) (req_Code req) w1 = (Inr tok, w2)"
    and ne: "req_State req \<noteq> tok_State tok \<or> req_RedirectURL req \<noteq> tok_RedirectURI tok"
  show "\<exists>msg. GenAccessToken rt m req gen (evs, w) = (Inl (Wrap ErrOAuthReqNotValid msg), (?evs, w2))"
  proof (cases "req_State req = tok_State tok")
    case False
    show ?thesis
      using GAT_checked[OF L S G Check_state_mismatch[OF False]] by blast
  next
    case True
    then have "req_RedirectURL req \<noteq> tok_RedirectURI tok" using ne by simp
    then show ?thesis
      using GAT_checked[OF L S G Check_redirect_mismatch[OF True]] by blast
  qed
next
  fix secrets w1 tok w2 now w3
  assume L: "os_ListSecret (oauthStore m) (req_ClientID req) w = (Inr secrets, w1)"
    and S: "req_ClientSecret req \<in> sec_ClientSecret ` set secrets"
    and G: "ts_Get (tokenStore m) (req_Code req) w1 = (Inr tok, w2)"
    and eq: "req_State req = tok_State tok \<and> req_RedirectURL req = tok_RedirectURI tok"
    and T: "time_Now rt w2 = (now, w3)"
    and old: "tok_CreatedAt tok + AuthorizeCodeExpireTime m < now"
  have "CheckByAuthorizationCode rt m req tok
          (evs @ [Call (OauthAppStore_ListSecret (req_ClientID req)) None,
                  Call (TokenStore_Get (req_Code req)) None], w2) =
        (Some (Wrap ErrOAuthCodeExpired []),
         (evs @ [Call (OauthAppStore_ListSecret (req_ClientID req)) None,
                 Call (TokenStore_Get (req_Code req)) None], w3))"
    using Check_fresh[OF conjunct1[OF eq] conjunct2[OF eq] T] old by simp
  then show "GenAccessToken rt m req gen (evs, w) =
      (Inl (Wrap ErrOAuthCodeExpired []),
       (evs @ [Call (OauthAppStore_ListSecret (req_ClientID req)) None,
               Call (TokenStore_Get (req_Code req)) None], w3))"
    by (rule GAT_checked[OF L S G])
next
  fix t r
  assume ev: "Call (TokenStore_Create t) r
            \<in> set (drop (length evs) (fst (snd (GenAccessToken rt m req gen (evs, w)))))"
  show "\<exists>secrets w1 tok w2 now w3.
         os_ListSecret (oauthStore m) (req_ClientID req) w = (Inr secrets, w1) \<and>
         req_ClientSecret req \<in> sec_ClientSecret ` set secrets \<and>
         ts_Get (tokenStore m) (req_Code req) w1 = (Inr tok, w2) \<and>
         req_State req = tok_State tok \<and> req_RedirectURL req = tok_RedirectURI tok \<and>
         time_Now rt w2 = (now, w3) \<and>
         \<not> tok_CreatedAt tok + AuthorizeCodeExpireTime m < now"
  proof (cases rule: GenAccessToken_cases[where m=m and req=req and w=w and rt=rt and evs=evs and gen=gen])
    case (list_failed e w1)
    then show ?thesis using ev by (simp add: GAT_list_failed)
  next
    case (secret_not_valid secrets w1)
    then show ?thesis using ev by (simp add: GAT_secret_not_valid)
  next
    case (get_failed secrets w1 e w2)
    then show ?thesis using ev by (simp add: GAT_get_failed)
  next
    case (check_failed secrets w1 tok w2 e s3)
    from check_failed(4) have "fst s3 = evs @ [Call (OauthAppStore_ListSecret (req_ClientID req)) None,
                   Call (TokenStore_Get (req_Code req)) None]"
      by (cases rule: Check_cases) auto
    then show ?thesis using ev GAT_checked[OF check_failed, of gen] by simp
  next
    case (minted secrets w1 tok w2 w3 accessToken w4 created w5 deleted w6)
    from minted(4) show ?thesis
    proof (cases rule: Check_cases)
      case (fresh now w')
      then show ?thesis using minted(1,2,3) by blast
    qed simp_all
  qed
qed

theorem GenAccessToken_checks_in_order_witness:
  "GenAccessToken (stub_runtime 160) (demo_manager (Inl ErrNotFound) None None)
     (demo_req\<lparr>req_ClientSecret := ''guess''\<rparr>) demo_strategy ([], 0) =
     (Inl (Wrap ErrOAuthSecretNotValid ''clientId = ho1, secret = guess''),
      ([Call (OauthAppStore_ListSecret ''ho1'') None], 1)) \<and>
   GenAccessToken (stub_runtime 160) (demo_manager (Inl ErrNotFound) None None)
     demo_req demo_strategy ([], 0) =
     (Inl ErrNotFound,
      ([Call (OauthAppStore_ListSecret ''ho1'') None,
        Call (TokenStore_Get ''code1'') (Some ErrNotFound)], 2)) \<and>
   (\<exists>msg. GenAccessToken (stub_runtime 160) (demo_manager (Inr demo_code) None None)
     (demo_req\<lparr>req_State := ''other''\<rparr>) demo_strategy ([], 0) =
     (Inl (Wrap ErrOAuthReqNotValid msg),
      ([Call (OauthAppStore_ListSecret ''ho1'') None,
        Call (TokenStore_Get ''code1'') None], 2))) \<and>
   GenAccessToken (stub_runtime 161) (demo_manager (Inr demo_code) None None)
     demo_req demo_strategy ([], 0) =
     (Inl (Wrap ErrOAuthCodeExpired []),
      ([Call (OauthAppStore_ListSecret ''ho1'') None,
        Call (TokenStore_Get ''code1'') None], 2)) \<and>
   Call (TokenStore_Create (demo_access 160)) None
     \<in> set (fst (snd (GenAccessToken (stub_runtime 160)
           (demo_manager (Inr demo_code) None None) demo_req demo_strategy ([], 0)))) \<and>
   \<not> tok_CreatedAt demo_code + 60 < 160"
proof -
  have 1: "GenAccessToken (stub_runtime 160) (demo_manager (Inl ErrNotFound) None None)
     (demo_req\<lparr>req_ClientSecret := ''guess''\<rparr>) demo_strategy ([], 0) =
     (Inl (Wrap ErrOAuthSecretNotValid ''clientId = ho1, secret = guess''),
      ([Call (OauthAppStore_ListSecret ''ho1'') None], 1))"
    using GenAccessToken_checks_in_order[where rt="stub_runtime 160"
        and m="demo_manager (Inl ErrNotFound) None None"
        and req="demo_req\<lparr>req_ClientSecret := ''guess''\<rparr>"
        and gen=demo_strategy and evs="[]" and w=0]
    by (simp add: demo_defs)
  have 2: "GenAccessToken (stub_runtime 160) (demo_manager (Inl ErrNotFound) None None)
     demo_req demo_strategy ([], 0) =
     (Inl ErrNotFound,
      ([Call (OauthAppStore_ListSecret ''ho1'') None,
        Call (TokenStore_Get ''code1'') (Some ErrNotFound)], 2))"
    using GenAccessToken_checks_in_order[where rt="stub_runtime 160"
        and m="demo_manager (Inl ErrNotFound) None None"
        and req="demo_req" and gen=demo_strategy and evs="[]" and w=0]
    by (simp add: demo_defs)
  have 3: "\<exists>msg. GenAccessToken (stub_runtime 160) (demo_manager (Inr demo_code) None None)
     (demo_req\<lparr>req_State := ''other''\<rparr>) demo_strategy ([], 0) =
     (Inl (Wrap ErrOAuthReqNotValid msg),
      ([Call (OauthAppStore_ListSecret ''ho1'') None,
        Call (TokenStore_Get ''code1'') None], 2))"
    using GenAccessToken_checks_in_order[where rt="stub_runtime 160"
        and m="demo_manager (Inr demo_code) None None"
        and req="demo_req\<lparr>req_State := ''other''\<rparr>"
        and gen=demo_strategy and evs="[]" and w=0]
    by (simp add: demo_defs numeral_2_eq_2)
  have 4: "GenAccessToken (stub_runtime 161) (demo_manager (Inr demo_code) None None)
     demo_req demo_strategy ([], 0) =
     (Inl (Wrap ErrOAuthCodeExpired []),
      ([Call (OauthAppStore_ListSecret ''ho1'') None,
        Call (TokenStore_Get ''code1'') None], 2))"
    using GenAccessToken_checks_in_order[where rt="stub_runtime 161"
        and m="demo_manager (Inr demo_code) None None"
        and req="demo_req" and gen=demo_strategy and evs="[]" and w=0]
    by (simp add: demo_defs)
  have 5: "Call (TokenStore_Create (demo_access 160)) None
     \<in> set (fst (snd (GenAccessToken (stub_runtime 160)
           (demo_manager (Inr demo_code) None None) demo_req demo_strategy ([], 0))))"
    by (simp add: demo_defs engine_defs)
  have 6: "\<not> tok_CreatedAt demo_code + 60 < 160"
    using 5 GenAccessToken_checks_in_order[where rt="stub_runtime 160"
        and m="demo_manager (Inr demo_code) None None"
        and req="demo_req" and gen=demo_strategy and evs="[]" and w=0]
    by (simp add: demo_defs)
  show ?thesis using 1 2 3 4 5 6 by blast
qed

text \<open>
  C3. For a request whose secret matches and whose state and redirect URL are those of
  the stored code: if the clock read by the check is strictly after
  \<open>CreatedAt + AuthorizeCodeExpireTime\<close> the exchange fails with \<open>ErrOAuthCodeExpired\<close>;
  while it is at most that instant the check returns no error, the engine goes on to
  \<open>Create\<close>, and the only error the exchange can still return is the one \<open>Create\<close>
  returned.
\<close>

theorem GenAccessToken_expiry:
  assumes L: "os_ListSecret (oauthStore m) (req_ClientID req) w = (Inr secrets, wL)"
    and S: "req_ClientSecret req \<in> sec_ClientSecret ` set secrets"
    and G: "ts_Get (tokenStore m) (req_Code req) wL = (Inr tok, wG)"
    and st: "req_State req = tok_State tok"
    and rd: "req_RedirectURL req = tok_RedirectURI tok"
    and T: "time_Now rt wG = (now, wT)"
  shows "(tok_CreatedAt tok + AuthorizeCodeExpireTime m < now \<longrightarrow>
            GenAccessToken rt m req gen (evs, w) =
              (Inl (Wrap ErrOAuthCodeExpired []),
               (evs @ [Call (OauthAppStore_ListSecret (req_ClientID req)) None,
                       Call (TokenStore_Get (req_Code req)) None], wT))) \<and>
         (now \<le> tok_CreatedAt tok + AuthorizeCodeExpireTime m \<longrightarrow>
            fst (CheckByAuthorizationCode rt m req tok (evs, wG)) = None \<and>
            (\<exists>accessToken created rest.
               fst (snd (GenAccessToken rt m req gen (evs, w))) =
                 evs @ [Call (OauthAppStore_ListSecret (req_ClientID req)) None,
                        Call (TokenStore_Get (req_Code req)) None,
                        Call (TokenStore_Create accessToken) created] @ rest \<and>
               fst (GenAccessToken rt m req gen (evs, w)) =
                 (case created of Some e \<Rightarrow> Inl e | None \<Rightarrow> Inr accessToken)))"
proof (intro conjI impI)
  let ?evs = "evs @ [Call (OauthAppStore_ListSecret (req_ClientID req)) None,
                     Call (TokenStore_Get (req_Code req)) None]"
  assume old: "tok_CreatedAt tok + AuthorizeCodeExpireTime m < now"
  have "CheckByAuthorizationCode rt m req tok (?evs, wG) =
          (Some (Wrap ErrOAuthCodeExpired []), (?evs, wT))"
    using Check_fresh[OF st rd T] old by simp
  then show "GenAccessToken rt m req gen (evs, w) = (Inl (Wrap ErrOAuthCodeExpired []), (?evs, wT))"
    by (rule GAT_checked[OF L S G])
next
  assume "now \<le> tok_CreatedAt tok + AuthorizeCodeExpireTime m"
  then show "fst (CheckByAuthorizationCode rt m req tok (evs, wG)) = None"
    using Check_fresh[OF st rd T, of m evs] by simp
next
  let ?evs = "evs @ [Call (OauthAppStore_ListSecret (req_ClientID req)) None,
                     Call (TokenStore_Get (req_Code req)) None]"
  assume young: "now \<le> tok_CreatedAt tok + AuthorizeCodeExpireTime m"
  have C: "CheckByAuthorizationCode rt m req tok (?evs, wG) = (None, (?evs, wT))"
    using Check_fresh[OF st rd T] young by simp
  obtain accessToken wN
    where N: "NewAccessToken rt m tok req gen ([], wT) = (accessToken, ([], wN))"
    using NewAccessToken_ex[of rt m tok req gen wT] by blast
  obtain created wC where Cr: "ts_Create (tokenStore m) accessToken wN = (created, wC)"
    by (cases "ts_Create (tokenStore m) accessToken wN")
  obtain deleted wD
    where D: "ts_DeleteByCode (tokenStore m) (req_Code req) wC = (deleted, wD)"
    by (cases "ts_DeleteByCode (tokenStore m) (req_Code req) wC")
  have "fst (snd (GenAccessToken rt m req gen (evs, w))) =
          evs @ [Call (OauthAppStore_ListSecret (req_ClientID req)) None,
                 Call (TokenStore_Get (req_Code req)) None,
                 Call (TokenStore_Create accessToken) created] @
            (case created of Some e \<Rightarrow> []
             | None \<Rightarrow> Call (TokenStore_DeleteByCode (req_Code req)) deleted #
                 (case deleted of None \<Rightarrow> [] | Some err \<Rightarrow> [Log_Warningf (req_Code req) err])) \<and>
        fst (GenAccessToken rt m req gen (evs, w)) =
          (case created of Some e \<Rightarrow> Inl e | None \<Rightarrow> Inr accessToken)"
    using GAT_minted[OF L S G C N Cr D] by (simp split: option.splits)
  then show "\<exists>accessToken created rest.
               fst (snd (GenAccessToken rt m req gen (evs, w))) =
                 evs @ [Call (OauthAppStore_ListSecret (req_ClientID req)) None,
                        Call (TokenStore_Get (req_Code req)) None,
                        Call (TokenStore_Create accessToken) created] @ rest \<and>
               fst (GenAccessToken rt m req gen (evs, w)) =
                 (case created of Some e \<Rightarrow> Inl e | None \<Rightarrow> Inr accessToken)"
    by blast
qed

theorem GenAccessToken_expiry_witness:
  "GenAccessToken (stub_runtime 161) (demo_manager (Inr demo_code) None None)
     demo_req demo_strategy ([], 0) =
     (Inl (Wrap ErrOAuthCodeExpired []),
      ([Call (OauthAppStore_ListSecret ''ho1'') None,
        Call (TokenStore_Get ''code1'') None], 2)) \<and>
   (160::int) \<le> tok_CreatedAt demo_code + AuthorizeCodeExpireTime (demo_manager (Inr demo_code) None None) \<and>
   fst (CheckByAuthorizationCode (stub_runtime 160) (demo_manager (Inr demo_code) None None)
          demo_req demo_code ([], 2)) = None \<and>
   (\<exists>accessToken created rest.
      fst (snd (GenAccessToken (stub_runtime 160) (demo_manager (Inr demo_code) None None)
                  demo_req demo_strategy ([], 0))) =
        [Call (OauthAppStore_ListSecret ''ho1'') None,
         Call (TokenStore_Get ''code1'') None,
         Call (TokenStore_Create accessToken) created] @ rest \<and>
      fst (GenAccessToken (stub_runtime 160) (demo_manager (Inr demo_code) None None)
             demo_req demo_strategy ([], 0)) =
        (case created of Some e \<Rightarrow> Inl e | None \<Rightarrow> Inr accessToken))"
proof -
  have old: "GenAccessToken (stub_runtime 161) (demo_manager (Inr demo_code) None None)
     demo_req demo_strategy ([], 0) =
     (Inl (Wrap ErrOAuthCodeExpired []),
      ([Call (OauthAppStore_ListSecret ''ho1'') None,
        Call (TokenStore_Get ''code1'') None], 2))"
    using GenAccessToken_expiry[where rt="stub_runtime 161"
      and m="demo_manager (Inr demo_code) None None"
      and req=demo_req and gen=demo_strategy and evs="[]" and w=0
      and secrets="[demo_secret]" and wL=1 and tok=demo_code and wG=2
      and now=161 and wT=2]
    by (simp add: demo_defs)
  have bound: "(160::int) \<le> tok_CreatedAt demo_code +
      AuthorizeCodeExpireTime (demo_manager (Inr demo_code) None None)"
    by (simp add: demo_defs)
  have young: "fst (CheckByAuthorizationCode (stub_runtime 160) (demo_manager (Inr demo_code) None None)
          demo_req demo_code ([], 2)) = None \<and>
   (\<exists>accessToken created rest.
      fst (snd (GenAccessToken (stub_runtime 160) (demo_manager (Inr demo_code) None None)
                  demo_req demo_strategy ([], 0))) =
        [] @ [Call (OauthAppStore_ListSecret (req_ClientID demo_req)) None,
         Call (TokenStore_Get (req_Code demo_req)) None,
         Call (TokenStore_Create accessToken) created] @ rest \<and>
      fst (GenAccessToken (stub_runtime 160) (demo_manager (Inr demo_code) None None)
             demo_req demo_strategy ([], 0)) =
        (case created of Some e \<Rightarrow> Inl e | None \<Rightarrow> Inr accessToken))"
    using bound GenAccessToken_expiry[where rt="stub_runtime 160"
      and m="demo_manager (Inr demo_code) None None"
      and req=demo_req and gen=demo_strategy and evs="[]" and w=0
      and secrets="[demo_secret]" and wL=1 and tok=demo_code and wG=2
      and now=160 and wT=2, THEN conjunct2]
    by (simp add: demo_defs)
  have ids: "req_ClientID demo_req = ''ho1''" "req_Code demo_req = ''code1''"
    by (simp_all add: demo_req_def)
  show ?thesis
    using old bound young unfolding ids by simp
qed

text \<open>
  C4. The access token a successful \<open>GenAccessToken\<close> returns takes its client
  identifier and redirect URI from the request, its scope and identity from the
  authorization code read from the store, has an empty state, the instant read by
  \<open>NewAccessToken\<close> as creation time, the configured access-token lifetime, and as code
  what the caller's strategy returns for the token (with its code still empty) and the
  request.
\<close>

theorem GenAccessToken_minted_fields:
  assumes R: "GenAccessToken rt m req gen (evs, w) = (Inr accessToken, s')"
    and L: "os_ListSecret (oauthStore m) (req_ClientID req) w = (Inr secrets, wL)"
    and G: "ts_Get (tokenStore m) (req_Code req) wL = (Inr tok, wG)"
    and T: "time_Now rt wG = (checked, wT)"
    and T': "time_Now rt wT = (now, wN)"
  shows "tok_ClientID accessToken = req_ClientID req \<and>
         tok_RedirectURI accessToken = req_RedirectURL req \<and>
         tok_Scope accessToken = tok_Scope tok \<and>
         tok_UserOrRobotIdentity accessToken = tok_UserOrRobotIdentity tok \<and>
         tok_State accessToken = [] \<and>
         tok_CreatedAt accessToken = now \<and>
         tok_ExpiresIn accessToken = AccessTokenExpireTime m \<and>
         tok_Code accessToken =
           gen \<lparr>info_Token = accessToken\<lparr>tok_Code := []\<rparr>, info_Request = req_Request req\<rparr> \<and>
         NewAccessToken rt m tok req gen (evs, wT) = (accessToken, (evs, wN))"
proof (cases rule: GenAccessToken_cases[where m=m and req=req and w=w and rt=rt and evs=evs and gen=gen])
  case (list_failed e wL)
  then show ?thesis using L by simp
next
  case (secret_not_valid secrets wL)
  then show ?thesis using R by (simp add: GAT_secret_not_valid)
next
  case (get_failed secrets wL e wG)
  then show ?thesis using L G by simp
next
  case (check_failed secrets wL tok wG e s3)
  then show ?thesis using R GAT_checked[OF check_failed, of gen] by simp
next
  case (minted secrets' wL' tok' wG' wT' accessToken' wN' created wC deleted wD)
  have eqs: "wL' = wL" "tok' = tok" "wG' = wG"
    using minted(1,3) L G by simp_all
  from minted(4) have wT': "wT' = wT"
    unfolding eqs by (cases rule: Check_cases) (use T in simp_all)
  have res: "created = None \<and> accessToken' = accessToken"
    using GAT_minted[OF minted] R by (simp split: option.splits)
  have N: "NewAccessToken rt m tok req gen ([], wT) = (accessToken, ([], wN'))"
    using minted(5) eqs wT' res by simp
  then have "wN' = wN \<and> accessToken =
      \<lparr>tok_ClientID = req_ClientID req, tok_RedirectURI = req_RedirectURL req,
       tok_State = [], tok_Code = gen \<lparr>info_Token =
          \<lparr>tok_ClientID = req_ClientID req, tok_RedirectURI = req_RedirectURL req,
           tok_State = [], tok_Code = [], tok_CreatedAt = now,
           tok_ExpiresIn = AccessTokenExpireTime m, tok_Scope = tok_Scope tok,
           tok_UserOrRobotIdentity = tok_UserOrRobotIdentity tok\<rparr>,
          info_Request = req_Request req\<rparr>,
       tok_CreatedAt = now, tok_ExpiresIn = AccessTokenExpireTime m,
       tok_Scope = tok_Scope tok,
       tok_UserOrRobotIdentity = tok_UserOrRobotIdentity tok\<rparr>"
    using T' by (auto simp: NewAccessToken_def ambient_def)
  then show ?thesis
    using NewAccessToken_log[OF N, of evs] by simp
qed

theorem GenAccessToken_minted_fields_witness:
  "GenAccessToken (stub_runtime 160) (demo_manager (Inr demo_code) None None)
     demo_req demo_strategy ([], 0) =
     (Inr (demo_access 160),
      ([Call (OauthAppStore_ListSecret ''ho1'') None,
        Call (TokenStore_Get ''code1'') None,
        Call (TokenStore_Create (demo_access 160)) None,
        Call (TokenStore_DeleteByCode ''code1'') None], 4)) \<and>
   tok_ClientID (demo_access 160) = req_ClientID demo_req \<and>
   tok_ClientID demo_code \<noteq> req_ClientID demo_req \<and>
   tok_RedirectURI (demo_access 160) = req_RedirectURL demo_req \<and>
   tok_Scope (demo_access 160) = tok_Scope demo_code \<and>
   tok_UserOrRobotIdentity (demo_access 160) = tok_UserOrRobotIdentity demo_code \<and>
   tok_State (demo_access 160) = [] \<and>
   tok_CreatedAt (demo_access 160) = 160 \<and>
   tok_ExpiresIn (demo_access 160) = 3600 \<and>
   tok_Code (demo_access 160) =
     demo_strategy \<lparr>info_Token = (demo_access 160)\<lparr>tok_Code := []\<rparr>, info_Request = ()\<rparr>"
proof -
  have R: "GenAccessToken (stub_runtime 160) (demo_manager (Inr demo_code) None None)
     demo_req demo_strategy ([], 0) =
     (Inr (demo_access 160),
      ([Call (OauthAppStore_ListSecret ''ho1'') None,
        Call (TokenStore_Get ''code1'') None,
        Call (TokenStore_Create (demo_access 160)) None,
        Call (TokenStore_DeleteByCode ''code1'') None], 4))"
    by (simp add: demo_defs engine_defs)
  have L: "os_ListSecret (oauthStore (demo_manager (Inr demo_code) None None))
             (req_ClientID demo_req) 0 = (Inr [demo_secret], 1)"
    by (simp add: demo_defs)
  have G: "ts_Get (tokenStore (demo_manager (Inr demo_code) None None))
             (req_Code demo_req) 1 = (Inr demo_code, 2)"
    by (simp add: demo_defs)
  have T: "time_Now (stub_runtime 160) 2 = (160, 2)"
    by (simp add: demo_defs)
  have "tok_ClientID demo_code \<noteq> req_ClientID demo_req"
    by (simp add: demo_defs)
  then show ?thesis
    using R GenAccessToken_minted_fields[OF R L G T T]
    by (simp add: demo_manager_def demo_req_def)
qed

text \<open>
  C2. When every validation passes and \<open>Create\<close> returns no error, a failure of
  \<open>DeleteByCode\<close> does not reach the caller: \<open>GenAccessToken\<close> returns the access token
  and no error, and the failure is logged as a warning.
\<close>

theorem GenAccessToken_delete_best_effort:
  assumes L: "os_ListSecret (oauthStore m) (req_ClientID req) w = (Inr secrets, wL)"
    and S: "req_ClientSecret req \<in> sec_ClientSecret ` set secrets"
    and G: "ts_Get (tokenStore m) (req_Code req) wL = (Inr tok, wG)"
    and st: "req_State req = tok_State tok"
    and rd: "req_RedirectURL req = tok_RedirectURI tok"
    and T: "time_Now rt wG = (now, wT)"
    and fresh: "\<not> tok_CreatedAt tok + AuthorizeCodeExpireTime m < now"
    and N: "NewAccessToken rt m tok req gen ([], wT) = (accessToken, ([], wN))"
    and Cr: "ts_Create (tokenStore m) accessToken wN = (None, wC)"
    and D: "ts_DeleteByCode (tokenStore m) (req_Code req) wC = (Some err, wD)"
  shows "GenAccessToken rt m req gen (evs, w) =
     (Inr accessToken,
      (evs @ [Call (OauthAppStore_ListSecret (req_ClientID req)) None,
              Call (TokenStore_Get (req_Code req)) None,
              Call (TokenStore_Create accessToken) None,
              Call (TokenStore_DeleteByCode (req_Code req)) (Some err),
              Log_Warningf (req_Code req) err], wD))"
proof -
  have C: "CheckByAuthorizationCode rt m req tok
             (evs @ [Call (OauthAppStore_ListSecret (req_ClientID req)) None,
                     Call (TokenStore_Get (req_Code req)) None], wG) =
           (None, (evs @ [Call (OauthAppStore_ListSecret (req_ClientID req)) None,
                          Call (TokenStore_Get (req_Code req)) None], wT))"
    using Check_fresh[OF st rd T] fresh by simp
  show ?thesis
    using GAT_minted[OF L S G C N Cr D] by simp
qed

theorem GenAccessToken_delete_best_effort_witness:
  "ts_Create (tokenStore (demo_manager (Inr demo_code) None (Some (ErrStore ''gone''))))
     (demo_access 160) 2 = (None, 3) \<and>
   ts_DeleteByCode (tokenStore (demo_manager (Inr demo_code) None (Some (ErrStore ''gone''))))
     ''code1'' 3 = (Some (ErrStore ''gone''), 4) \<and>
   GenAccessToken (stub_runtime 160)
     (demo_manager (Inr demo_code) None (Some (ErrStore ''gone''))) demo_req demo_strategy ([], 0) =
     (Inr (demo_access 160),
      ([Call (OauthAppStore_ListSecret ''ho1'') None,
        Call (TokenStore_Get ''code1'') None,
        Call (TokenStore_Create (demo_access 160)) None,
        Call (TokenStore_DeleteByCode ''code1'') (Some (ErrStore ''gone'')),
        Log_Warningf ''code1'' (ErrStore ''gone'')], 4))"
  using GenAccessToken_delete_best_effort[where rt="stub_runtime 160"
      and m="demo_manager (Inr demo_code) None (Some (ErrStore ''gone''))"
      and req=demo_req and gen=demo_strategy and evs="[]" and w=0
      and secrets="[demo_secret]" and wL=1 and tok=demo_code and wG=2
      and now=160 and wT=2 and accessToken="demo_access 160" and wN=2 and wC=3
      and err="ErrStore ''gone''" and wD=4]
  by (simp add: demo_defs NewAccessToken_def ambient_def)

text \<open>
  C10. Whenever \<open>GenAccessToken\<close> returns an error, whatever its kind, no access token
  has been created and no deletion has been asked for: either the engine has only read
  from the stores, or the error is the one with which the store refused \<open>Create\<close>, after
  the four checks had passed.
\<close>

theorem GenAccessToken_atomic_on_failure:
  assumes R: "GenAccessToken rt m req gen (evs, w) = (Inl e, (evs', w'))"
  shows "\<exists>new. evs' = evs @ new \<and>
           \<not> list_ex token_created new \<and> \<not> list_ex delete_invoked new \<and>
           (list_all store_read new \<or>
            (\<exists>accessToken. new = [Call (OauthAppStore_ListSecret (req_ClientID req)) None,
                                  Call (TokenStore_Get (req_Code req)) None,
                                  Call (TokenStore_Create accessToken) (Some e)]))"
proof (cases rule: GenAccessToken_cases[where m=m and req=req and w=w and rt=rt and evs=evs and gen=gen])
  case (list_failed e' wL)
  then show ?thesis using R by (auto simp: GAT_list_failed)
next
  case (secret_not_valid secrets wL)
  then show ?thesis using R by (auto simp: GAT_secret_not_valid)
next
  case (get_failed secrets wL e' wG)
  then show ?thesis using R by (auto simp: GAT_get_failed)
next
  case (check_failed secrets wL tok wG e' s3)
  from check_failed(4)
  have "fst s3 = evs @ [Call (OauthAppStore_ListSecret (req_ClientID req)) None,
                        Call (TokenStore_Get (req_Code req)) None]"
    by (cases rule: Check_cases) auto
  then show ?thesis using R GAT_checked[OF check_failed, of gen] by auto
next
  case (minted secrets wL tok wG wT accessToken wN created wC deleted wD)
  show ?thesis
    using R GAT_minted[OF minted] by (auto split: option.splits)
qed

theorem GenAccessToken_atomic_on_failure_witness:
  "GenAccessToken (stub_runtime 161) (demo_manager (Inr demo_code) None None)
     demo_req demo_strategy ([], 0) =
     (Inl (Wrap ErrOAuthCodeExpired []),
      ([Call (OauthAppStore_ListSecret ''ho1'') None,
        Call (TokenStore_Get ''code1'') None], 2)) \<and>
   (\<exists>new. [Call (OauthAppStore_ListSecret ''ho1'') None,
            Call (TokenStore_Get ''code1'') None] = [] @ new \<and>
      \<not> list_ex token_created new \<and> \<not> list_ex delete_invoked new \<and>
      (list_all store_read new \<or>
       (\<exists>accessToken. new = [Call (OauthAppStore_ListSecret (req_ClientID demo_req)) None,
                             Call (TokenStore_Get (req_Code demo_req)) None,
                             Call (TokenStore_Create accessToken)
                               (Some (Wrap ErrOAuthCodeExpired []))])))"
proof -
  have R: "GenAccessToken (stub_runtime 161) (demo_manager (Inr demo_code) None None)
     demo_req demo_strategy ([], 0) =
     (Inl (Wrap ErrOAuthCodeExpired []),
      ([Call (OauthAppStore_ListSecret ''ho1'') None,
        Call (TokenStore_Get ''code1'') None], 2))"
    by (simp add: demo_defs engine_defs)
  show ?thesis
    using R GenAccessToken_atomic_on_failure[OF R] by blast
qed

subsection \<open>Deleting an app\<close>

text \<open>
  C5. \<open>DeleteOAuthApp\<close> invokes \<open>DeleteByClientID\<close> of the token store, then
  \<open>DeleteSecretByClientID\<close>, then \<open>DeleteApp\<close>, in this order and nothing else. The first
  error is returned and no later step is invoked; the world is left as the completed
  steps made it.
\<close>

theorem DeleteOAuthApp_cascade:
  assumes D1: "ts_DeleteByClientID (tokenStore m) clientID w = (rTokens, wTokens)"
    and D2: "os_DeleteSecretByClientID (oauthStore m) clientID wTokens = (rSecrets, wSecrets)"
    and D3: "os_DeleteApp (oauthStore m) clientID wSecrets = (rApp, wApp)"
  shows "(\<forall>e. rTokens = Some e \<longrightarrow>
            DeleteOAuthApp m clientID (evs, w) =
              (Some e, (evs @ [Call (TokenStore_DeleteByClientID clientID) (Some e)], wTokens))) \<and>
         (\<forall>e. rTokens = None \<and> rSecrets = Some e \<longrightarrow>
            DeleteOAuthApp m clientID (evs, w) =
              (Some e, (evs @ [Call (TokenStore_DeleteByClientID clientID) None,
                               Call (OauthAppStore_DeleteSecretByClientID clientID) (Some e)], wSecrets))) \<and>
         (rTokens = None \<and> rSecrets = None \<longrightarrow>
            DeleteOAuthApp m clientID (evs, w) =
              (rApp, (evs @ [Call (TokenStore_DeleteByClientID clientID) None,
                           Call (OauthAppStore_DeleteSecretByClientID clientID) None,
                           Call (OauthAppStore_DeleteApp clientID) rApp], wApp)))"
  using D1 D2 D3 by (simp add: DeleteOAuthApp_def invoke_def)

theorem DeleteOAuthApp_cascade_witness:
  "DeleteOAuthApp \<lparr>oauthStore = stub_oauthStore (Inr []) None None,
                   tokenStore = stub_tokenStore (Inl ErrNotFound) None (Some (ErrStore ''tokens'')),
                   AuthorizeCodeExpireTime = 60, AccessTokenExpireTime = 3600\<rparr> ''ho1'' ([], 0) =
     (Some (ErrStore ''tokens''),
      ([Call (TokenStore_DeleteByClientID ''ho1'') (Some (ErrStore ''tokens''))], 1)) \<and>
   DeleteOAuthApp \<lparr>oauthStore = stub_oauthStore (Inr []) (Some (ErrStore ''secrets'')) None,
                   tokenStore = stub_tokenStore (Inl ErrNotFound) None None,
                   AuthorizeCodeExpireTime = 60, AccessTokenExpireTime = 3600\<rparr> ''ho1'' ([], 0) =
     (Some (ErrStore ''secrets''),
      ([Call (TokenStore_DeleteByClientID ''ho1'') None,
        Call (OauthAppStore_DeleteSecretByClientID ''ho1'') (Some (ErrStore ''secrets''))], 2)) \<and>
   DeleteOAuthApp \<lparr>oauthStore = stub_oauthStore (Inr []) None (Some (ErrStore ''app'')),
                   tokenStore = stub_tokenStore (Inl ErrNotFound) None None,
                   AuthorizeCodeExpireTime = 60, AccessTokenExpireTime = 3600\<rparr> ''ho1'' ([], 0) =
     (Some (ErrStore ''app''),
      ([Call (TokenStore_DeleteByClientID ''ho1'') None,
        Call (OauthAppStore_DeleteSecretByClientID ''ho1'') None,
        Call (OauthAppStore_DeleteApp ''ho1'') (Some (ErrStore ''app''))], 3)) \<and>
   DeleteOAuthApp \<lparr>oauthStore = stub_oauthStore (Inr []) None None,
                   tokenStore = stub_tokenStore (Inl ErrNotFound) None None,
                   AuthorizeCodeExpireTime = 60, AccessTokenExpireTime = 3600\<rparr> ''ho1'' ([], 0) =
     (None,
      ([Call (TokenStore_DeleteByClientID ''ho1'') None,
        Call (OauthAppStore_DeleteSecretByClientID ''ho1'') None,
        Call (OauthAppStore_DeleteApp ''ho1'') None], 3))"
  using
    DeleteOAuthApp_cascade[where
      m="\<lparr>oauthStore = stub_oauthStore (Inr []) None None,
          tokenStore = stub_tokenStore (Inl ErrNotFound) None (Some (ErrStore ''tokens'')),
          AuthorizeCodeExpireTime = 60, AccessTokenExpireTime = 3600\<rparr>"
      and clientID="''ho1''" and w=0 and evs="[]" and rTokens="Some (ErrStore ''tokens'')" and wTokens=1
      and rSecrets=None and wSecrets=2 and rApp=None and wApp=3]
    DeleteOAuthApp_cascade[where
      m="\<lparr>oauthStore = stub_oauthStore (Inr []) (Some (ErrStore ''secrets'')) None,
          tokenStore = stub_tokenStore (Inl ErrNotFound) None None,
          AuthorizeCodeExpireTime = 60, AccessTokenExpireTime = 3600\<rparr>"
      and clientID="''ho1''" and w=0 and evs="[]" and rTokens=None and wTokens=1
      and rSecrets="Some (ErrStore ''secrets'')" and wSecrets=2 and rApp=None and wApp=3]
    DeleteOAuthApp_cascade[where
      m="\<lparr>oauthStore = stub_oauthStore (Inr []) None (Some (ErrStore ''app'')),
          tokenStore = stub_tokenStore (Inl ErrNotFound) None None,
          AuthorizeCodeExpireTime = 60, AccessTokenExpireTime = 3600\<rparr>"
      and clientID="''ho1''" and w=0 and evs="[]" and rTokens=None and wTokens=1
      and rSecrets=None and wSecrets=2 and rApp="Some (ErrStore ''app'')" and wApp=3]
    DeleteOAuthApp_cascade[where
      m="\<lparr>oauthStore = stub_oauthStore (Inr []) None None,
          tokenStore = stub_tokenStore (Inl ErrNotFound) None None,
          AuthorizeCodeExpireTime = 60, AccessTokenExpireTime = 3600\<rparr>"
      and clientID="''ho1''" and w=0 and evs="[]" and rTokens=None and wTokens=1
      and rSecrets=None and wSecrets=2 and rApp=None and wApp=3]
  by (simp add: stub_oauthStore_def stub_tokenStore_def)

end
